theory Spec2Isabelle
  imports Main
begin

section \<open>Strings\<close>

text \<open>
  The generator of \<^verbatim>\<open>src/file-content-generator.ts\<close> builds Java source text by string
  concatenation.  A JavaScript string is modelled as a \<^typ>\<open>string\<close>, a list of characters.
  All text the generator itself writes is ASCII, and so are the characters it inspects
  (the first letter of an identifier, the markers \<^verbatim>\<open>/src/test/java\<close> and
  \<^verbatim>\<open>/src/main/java\<close>, the separator \<^verbatim>\<open>/\<close>); on ASCII text a UTF-16 code unit, a
  UTF-8 byte and a \<^typ>\<open>char\<close> are the same thing.  The case conversions are modelled on
  the ASCII letters, which they map as JavaScript does; every other character is left as
  it is.  JavaScript also converts the letters outside ASCII (\<^verbatim>\<open>toLowerCase\<close> of a capital
  E with an acute accent is the small one, \<^verbatim>\<open>toUpperCase\<close> of a sharp s is \<^verbatim>\<open>SS\<close>), so the
  model of a conversion is the code's conversion on ASCII characters only: every statement
  below about a name whose first letter is converted is stated for names that start with
  an ASCII character (\<open>asciiInitial\<close>).
\<close>

abbreviation NL :: char where "NL \<equiv> CHR 0x0A"
abbreviation TAB :: char where "TAB \<equiv> CHR 0x09"
abbreviation DQ :: char where "DQ \<equiv> CHR 0x22"

definition upperLetters :: string where
  "upperLetters = ''ABCDEFGHIJKLMNOPQRSTUVWXYZ''"

definition lowerLetters :: string where
  "lowerLetters = ''abcdefghijklmnopqrstuvwxyz''"

definition toLowerCaseChar :: "char \<Rightarrow> char" where
  "toLowerCaseChar c =
     (case map_of (zip upperLetters lowerLetters) c of Some l \<Rightarrow> l | None \<Rightarrow> c)"

definition toUpperCaseChar :: "char \<Rightarrow> char" where
  "toUpperCaseChar c =
     (case map_of (zip lowerLetters upperLetters) c of Some u \<Rightarrow> u | None \<Rightarrow> c)"



text \<open>\<^verbatim>\<open>String.prototype.toLowerCase\<close> and \<^verbatim>\<open>toUpperCase\<close>: every character is converted.\<close>

definition toLowerCase :: "string \<Rightarrow> string" where
  "toLowerCase s = map toLowerCaseChar s"

definition toUpperCase :: "string \<Rightarrow> string" where
  "toUpperCase s = map toUpperCaseChar s"

text \<open>\<^verbatim>\<open>s.charAt(i)\<close> is the one-character string at index \<open>i\<close>, and the empty string when
  \<open>i\<close> is out of range; \<^verbatim>\<open>s.slice(i)\<close> is the rest of the string from index \<open>i\<close>.\<close>

definition charAt :: "string \<Rightarrow> nat \<Rightarrow> string" where
  "charAt s i = (if i < length s then [s ! i] else [])"

definition slice :: "string \<Rightarrow> nat \<Rightarrow> string" where
  "slice s i = drop i s"

fun startsWith :: "string \<Rightarrow> string \<Rightarrow> bool" where
  "startsWith s [] = True"
| "startsWith [] (p # ps) = False"
| "startsWith (c # cs) (p # ps) = (c = p \<and> startsWith cs ps)"

text \<open>\<^verbatim>\<open>s.indexOf(p)\<close>: the first index at which \<open>p\<close> occurs in \<open>s\<close>, and \<open>-1\<close> when it
  does not occur.\<close>

fun indexOfFrom :: "nat \<Rightarrow> string \<Rightarrow> string \<Rightarrow> int" where
  "indexOfFrom i [] p = (if p = [] then int i else - 1)"
| "indexOfFrom i (c # cs) p =
     (if startsWith (c # cs) p then int i else indexOfFrom (Suc i) cs p)"

definition indexOf :: "string \<Rightarrow> string \<Rightarrow> int" where
  "indexOf s p = indexOfFrom 0 s p"

text \<open>\<^verbatim>\<open>s.substring(a, b)\<close>: both indices are clamped to \<open>0 .. length s\<close> and swapped
  when the first is larger.\<close>

definition clampIndex :: "string \<Rightarrow> int \<Rightarrow> nat" where
  "clampIndex s i = nat (min (max i 0) (int (length s)))"

definition substring :: "string \<Rightarrow> int \<Rightarrow> int \<Rightarrow> string" where
  "substring s a b =
     (let x = clampIndex s a; y = clampIndex s b; lo = min x y; hi = max x y
      in take (hi - lo) (drop lo s))"

text \<open>\<^verbatim>\<open>s.replace(/\//g, '.')\<close>: every slash becomes a dot.\<close>

definition replaceSlashes :: "string \<Rightarrow> string" where
  "replaceSlashes s = map (\<lambda>c. if c = CHR ''/'' then CHR ''.'' else c) s"

text \<open>\<^verbatim>\<open>Buffer.from(s, 'utf8')\<close>: the bytes of the text; on ASCII text, the text itself.\<close>

definition Buffer_from_utf8 :: "string \<Rightarrow> char list" where
  "Buffer_from_utf8 s = s"

subsection \<open>Node's \<^verbatim>\<open>path.posix\<close>\<close>

text \<open>
  \<^verbatim>\<open>posix.basename(p)\<close> is the last component of the path, trailing slashes ignored.
  \<^verbatim>\<open>posix.extname(p)\<close> is the part of that component from its last dot on; it is empty
  when the component has no dot, when its only dot is its first character, and for the
  component \<^verbatim>\<open>..\<close>.
\<close>

definition basename :: "string \<Rightarrow> string" where
  "basename p =
     rev (takeWhile (\<lambda>c. c \<noteq> CHR ''/'') (dropWhile (\<lambda>c. c = CHR ''/'') (rev p)))"

definition extname :: "string \<Rightarrow> string" where
  "extname p =
     (let b = basename p;
          startDot = length b - length (takeWhile (\<lambda>c. c \<noteq> CHR ''.'') (rev b)) - 1
      in if CHR ''.'' \<notin> set b \<or> startDot = 0 \<or> b = ''..'' then [] else drop startDot b)"

section \<open>The class model\<close>

text \<open>
  Modelled from the spec: the type declarations of \<^verbatim>\<open>./types\<close>, which the generator
  imports (\<^verbatim>\<open>JavaClass\<close>) and which are not among the sources.  The spec's data model gives a
  parameter the fields \<^verbatim>\<open>type\<close> and \<^verbatim>\<open>name\<close>, a method signature the fields \<^verbatim>\<open>name\<close>,
  \<^verbatim>\<open>returnType\<close> and \<^verbatim>\<open>parameters\<close> (here \<open>mname\<close>, since a record field name is global),
  and a class descriptor the five fields below, all strings or sequences.  The generator
  tests the three sequences for presence before it reads them
  (\<^verbatim>\<open>javaClass.constructorParameters && ...\<close>), so they are optional here: \<open>None\<close> is
  an absent (\<^verbatim>\<open>undefined\<close> or \<^verbatim>\<open>null\<close>) field.
\<close>

record Parameter =
  type :: string
  name :: string

record MethodSignature =
  mname :: string
  returnType :: string
  parameters :: "Parameter list option"

record JavaClass =
  className :: string
  accessModifier :: string
  classParameters :: string
  constructorParameters :: "Parameter list option"
  publicMethods :: "MethodSignature list option"

text \<open>A \<^verbatim>\<open>vscode.Uri\<close>, as far as the generator reads it: its \<^verbatim>\<open>path\<close> and its
  \<^verbatim>\<open>fsPath\<close> (the same text for a file of a POSIX file system).\<close>

record Uri =
  path :: string
  fsPath :: string

section \<open>The generator\<close>

definition capitalizeFirstLetter :: "string \<Rightarrow> string" where
  "capitalizeFirstLetter string = toUpperCase (charAt string 0) @ slice string 1"

definition lowercaseFirstLetter :: "string \<Rightarrow> string" where
  "lowercaseFirstLetter string = toLowerCase (charAt string 0) @ slice string 1"

definition generateEmptyClassContent :: "string \<Rightarrow> string \<Rightarrow> char list" where
  "generateEmptyClassContent packageName className' =
     (let classContent = [];
          classContent =
            (if length packageName \<noteq> 0
             then ''package '' @ packageName @ '';'' @ [NL, NL]
             else classContent);
          classContent =
            classContent @ ''public class '' @ className' @ '' {'' @ [NL, TAB, NL] @ ''}''
      in Buffer_from_utf8 classContent)"

subsection \<open>Package names\<close>

definition createPackageNameFromUri :: "Uri \<Rightarrow> string option \<Rightarrow> bool \<Rightarrow> string" where
  "createPackageNameFromUri uri filename isTest =
     (let pathPrefix = (if isTest then ''/src/test/java'' else ''/src/main/java'');
          startIndex = indexOf (fsPath uri) pathPrefix + 15;
          endIndex = int (length (path uri));
          extension = extname (path uri)
      in if length extension > 0
         then
           (let filename' =
                  (case filename of
                     None \<Rightarrow> basename (path uri)
                   | Some f \<Rightarrow> if length f = 0 then basename (path uri) else f);
                endIndex = indexOf (fsPath uri) filename' - 1
            in if startIndex \<ge> endIndex then []
               else replaceSlashes (substring (fsPath uri) startIndex endIndex))
         else replaceSlashes (substring (fsPath uri) startIndex endIndex))"

definition generateTestClassPackageDeclaration :: "Uri \<Rightarrow> string \<Rightarrow> string" where
  "generateTestClassPackageDeclaration testFileUri testClassName =
     (let packageName = createPackageNameFromUri testFileUri (Some testClassName) True
      in if length packageName = 0 then []
         else ''package '' @ packageName @ '';'')"

subsection \<open>The test class\<close>

text \<open>The loop over the constructor parameters (lines 72 to 80): its state is the
  argument list built so far and the content built so far.\<close>

fun constructorParametersLoop ::
  "Parameter list \<Rightarrow> string \<times> string \<Rightarrow> string \<times> string" where
  "constructorParametersLoop [] (constructorArgs, testClassContent) =
     (constructorArgs, testClassContent)"
| "constructorParametersLoop (param # params) (constructorArgs, testClassContent) =
     (let attributeName = lowercaseFirstLetter (name param);
          constructorArgs =
            (if length constructorArgs \<noteq> 0
             then constructorArgs @ '', '' @ attributeName
             else attributeName);
          testClassContent =
            testClassContent @ [TAB] @ ''@Mock'' @ [NL, TAB] @ ''private '' @ type param
              @ '' '' @ attributeName @ '';'' @ [NL]
      in constructorParametersLoop params (constructorArgs, testClassContent))"

text \<open>The loop over the parameters of one method (lines 99 to 106): its state is the
  content and the method's argument list.\<close>

fun methodParametersLoop ::
  "Parameter list \<Rightarrow> string \<times> string \<Rightarrow> string \<times> string" where
  "methodParametersLoop [] (methodArgs, testClassContent) = (methodArgs, testClassContent)"
| "methodParametersLoop (param # params) (methodArgs, testClassContent) =
     (let testClassContent =
            testClassContent @ [TAB, TAB] @ type param @ '' '' @ name param @ '';'' @ [NL];
          methodArgs =
            (if length methodArgs \<noteq> 0
             then methodArgs @ '', '' @ name param
             else name param)
      in methodParametersLoop params (methodArgs, testClassContent))"

text \<open>The loop over the public methods (lines 91 to 118).\<close>

fun publicMethodsLoop :: "string \<Rightarrow> MethodSignature list \<Rightarrow> string \<Rightarrow> string" where
  "publicMethodsLoop varName [] testClassContent = testClassContent"
| "publicMethodsLoop varName (method # methods) testClassContent =
     (let testClassContent =
            testClassContent @ [NL, TAB] @ ''@Test'' @ [NL, TAB] @ ''public void should''
              @ capitalizeFirstLetter (mname method) @ ''() {'' @ [NL];
          methodArgs = [];
          (methodArgs, testClassContent) =
            (case parameters method of
               None \<Rightarrow> (methodArgs, testClassContent)
             | Some ps \<Rightarrow>
                 if length ps > 0
                 then
                   (let testClassContent =
                          testClassContent @ [TAB, TAB] @ ''// TODO: initialize args'' @ [NL];
                        (methodArgs, testClassContent) =
                          methodParametersLoop ps (methodArgs, testClassContent)
                    in (methodArgs, testClassContent @ [NL]))
                 else (methodArgs, testClassContent));
          testClassContent =
            (if returnType method \<noteq> ''void''
             then testClassContent @ [TAB, TAB] @ returnType method @ '' actualValue = ''
             else testClassContent @ [TAB, TAB]);
          testClassContent =
            testClassContent @ varName @ ''.'' @ mname method @ ''('' @ methodArgs @ '');''
              @ [NL, NL, TAB, TAB] @ ''// TODO: assert scenario'' @ [NL, TAB] @ ''}'' @ [NL]
      in publicMethodsLoop varName methods testClassContent)"

definition createTestClass :: "JavaClass \<Rightarrow> string" where
  "createTestClass javaClass =
     (let varName = lowercaseFirstLetter (className javaClass);
          testClassContent =
            [NL] @ ''@RunWith(MockitoJUnitRunner.class)'' @ [NL] @ accessModifier javaClass
              @ ''class '' @ className javaClass @ ''Test {'' @ [NL];
          constructorArgs = [];
          (constructorArgs, testClassContent) =
            (case constructorParameters javaClass of
               None \<Rightarrow> (constructorArgs, testClassContent)
             | Some ps \<Rightarrow>
                 if length ps > 0
                 then constructorParametersLoop ps (constructorArgs, testClassContent)
                 else (constructorArgs, testClassContent));
          testClassContent =
            testClassContent @ [NL, TAB] @ ''private '' @ className javaClass
              @ classParameters javaClass @ '' '' @ varName @ '';'' @ [NL, NL, TAB]
              @ ''@Before'' @ [NL, TAB] @ ''public void setup() {'' @ [NL, TAB, TAB]
              @ ''this.'' @ varName @ '' = new '' @ className javaClass
              @ classParameters javaClass @ ''('' @ constructorArgs @ '');'' @ [NL, TAB]
              @ ''}'' @ [NL];
          testClassContent =
            (case publicMethods javaClass of
               None \<Rightarrow>
                 testClassContent @ [TAB] @ ''@Test'' @ [NL, TAB]
                   @ ''public void shouldCompile() {'' @ [NL, TAB, TAB] @ ''assertThat(''
                   @ [DQ] @ ''Actual value'' @ [DQ] @ '', is('' @ [DQ] @ ''Expected value''
                   @ [DQ] @ ''));'' @ [NL, TAB] @ ''}'' @ [NL]
             | Some ms \<Rightarrow>
                 if length ms \<noteq> 0
                 then publicMethodsLoop varName ms testClassContent
                 else
                   testClassContent @ [TAB] @ ''@Test'' @ [NL, TAB]
                     @ ''public void shouldCompile() {'' @ [NL, TAB, TAB] @ ''assertThat(''
                     @ [DQ] @ ''Actual value'' @ [DQ] @ '', is('' @ [DQ] @ ''Expected value''
                     @ [DQ] @ ''));'' @ [NL, TAB] @ ''}'' @ [NL])
      in testClassContent @ ''}'' @ [NL])"

definition createDefaultTestClass :: "string \<Rightarrow> string \<Rightarrow> string" where
  "createDefaultTestClass javaClassName testClassName =
     [NL] @ ''public class '' @ testClassName @ '' {'' @ [NL, TAB]
       @ ''private '' @ javaClassName @ '' cut;'' @ [NL, NL, TAB]
       @ ''@Before'' @ [NL, TAB]
       @ ''public void setup() {'' @ [NL, TAB, TAB]
       @ ''this.cut = new '' @ javaClassName @ ''();'' @ [NL, TAB]
       @ ''}'' @ [NL, NL, TAB]
       @ ''@Test'' @ [NL, TAB]
       @ ''public void shouldCompile() {'' @ [NL, TAB, TAB]
       @ ''assertThat('' @ [DQ] @ ''Actual value'' @ [DQ] @ '', is('' @ [DQ]
       @ ''Expected value'' @ [DQ] @ ''));'' @ [NL, TAB]
       @ ''}'' @ [NL]
       @ ''}''"

definition createDefaultImports :: string where
  "createDefaultImports =
     [NL, NL] @ ''import static org.hamcrest.Matchers.*;'' @ [NL]
       @ ''import static org.junit.Assert.assertEquals;'' @ [NL]
       @ ''import static org.junit.Assert.assertThat;'' @ [NL]
       @ ''import static org.mockito.Mockito.*;'' @ [NL]
       @ ''import org.hamcrest.CoreMatchers;'' @ [NL]
       @ ''import org.junit.After;'' @ [NL]
       @ ''import org.junit.Before;'' @ [NL]
       @ ''import org.junit.Test;'' @ [NL]
       @ ''import org.junit.runner.RunWith;'' @ [NL]
       @ ''import org.mockito.ArgumentCaptor;'' @ [NL]
       @ ''import org.mockito.Mock;'' @ [NL]
       @ ''import org.mockito.junit.MockitoJUnitRunner;'' @ [NL]"

subsection \<open>The entry point\<close>

text \<open>
  Lines 22 to 26 of \<^verbatim>\<open>generateTestClassFileContent\<close>: \<^verbatim>\<open>find\<close> returns the first class
  whose access modifier starts with \<^verbatim>\<open>public\<close>; when there is none, the first class of the
  array is taken and its \<^verbatim>\<open>accessModifier\<close> is assigned.  The assignment changes the
  object held by the array, so the result is the chosen class together with the array as
  the assignment leaves it.  On an empty array \<^verbatim>\<open>javaClasses[0]\<close> is \<^verbatim>\<open>undefined\<close> and the
  assignment to its property throws.
\<close>

datatype error = TypeError

definition findOrSetPublicClass ::
  "JavaClass list \<Rightarrow> error + JavaClass \<times> JavaClass list" where
  "findOrSetPublicClass javaClasses =
     (case find (\<lambda>c. startsWith (accessModifier c) ''public'') javaClasses of
        Some publicClass \<Rightarrow> Inr (publicClass, javaClasses)
      | None \<Rightarrow>
          (case javaClasses of
             [] \<Rightarrow> Inl TypeError
           | first # others \<Rightarrow>
               (let publicClass = first\<lparr>accessModifier := ''public ''\<rparr>
                in Inr (publicClass, publicClass # others))))"

text \<open>
  \<^verbatim>\<open>generateTestClassFileContent\<close>.  The classes come from \<^verbatim>\<open>parseJavaClassesFromFile\<close> of
  \<^verbatim>\<open>./class-parser\<close>, which is not among the sources: the value it resolves to is the
  argument \<open>javaClasses\<close> here (\<open>None\<close> when it is \<^verbatim>\<open>null\<close> or \<^verbatim>\<open>undefined\<close>), in place of
  the \<^verbatim>\<open>javaFileUri\<close> it is read from.  The result is the buffer, or the error thrown.
\<close>

definition generateTestClassFileContent ::
  "JavaClass list option \<Rightarrow> string \<Rightarrow> Uri \<Rightarrow> string \<Rightarrow> error + char list" where
  "generateTestClassFileContent javaClasses javaClassName testFileUri testClassName =
     (let packageDeclaration = generateTestClassPackageDeclaration testFileUri testClassName;
          fileContent = packageDeclaration @ createDefaultImports
      in case javaClasses of
           None \<Rightarrow>
             Inr (Buffer_from_utf8
               (fileContent @ createDefaultTestClass javaClassName testClassName))
         | Some cs \<Rightarrow>
             if length cs > 0
             then
               (case findOrSetPublicClass cs of
                  Inl e \<Rightarrow> Inl e
                | Inr (publicClass, cs') \<Rightarrow>
                    Inr (Buffer_from_utf8 (fileContent @ createTestClass publicClass)))
             else
               Inr (Buffer_from_utf8
                 (fileContent @ createDefaultTestClass javaClassName testClassName)))"

subsection \<open>The test class of a descriptor with absent fields\<close>




section \<open>Reading the generated text\<close>

text \<open>
  The properties of the generated file are stated on what a reader finds in it.
  \<open>textsAfter marker stop s\<close> lists, for every place of \<open>s\<close> where \<open>marker\<close> stands, the
  text that follows the marker up to the next \<open>stop\<close> character, in the order of the
  places.
\<close>

fun stripPrefix :: "string \<Rightarrow> string \<Rightarrow> string option" where
  "stripPrefix [] s = Some s"
| "stripPrefix (p # ps) [] = None"
| "stripPrefix (p # ps) (c # cs) = (if p = c then stripPrefix ps cs else None)"

fun textsAfter :: "string \<Rightarrow> char \<Rightarrow> string \<Rightarrow> string list" where
  "textsAfter marker stop [] = []"
| "textsAfter marker stop (c # cs) =
     (case stripPrefix marker (c # cs) of
        Some rest \<Rightarrow> takeWhile (\<lambda>x. x \<noteq> stop) rest # textsAfter marker stop cs
      | None \<Rightarrow> textsAfter marker stop cs)"

text \<open>The test methods of a file: what follows each \<^verbatim>\<open>@Test\<close> annotation and the
  \<^verbatim>\<open>public void\<close> of the next line, up to the parameter list (the method's name) and up to
  the closing brace (the name and the body).\<close>

definition testMethodNames :: "string \<Rightarrow> string list" where
  "testMethodNames s = textsAfter (''@Test'' @ [NL, TAB] @ ''public void '') CHR ''('' s"

definition testMethodTexts :: "string \<Rightarrow> string list" where
  "testMethodTexts s = textsAfter (''@Test'' @ [NL, TAB] @ ''public void '') CHR ''}'' s"


definition fieldDeclarations :: "string \<Rightarrow> string list" where
  "fieldDeclarations s = textsAfter ([NL, TAB] @ ''private '') CHR '';'' s"

definition setupStatements :: "string \<Rightarrow> string list" where
  "setupStatements s =
     textsAfter (''@Before'' @ [NL, TAB] @ ''public void setup() {'' @ [NL, TAB, TAB])
       CHR '';'' s"

text \<open>\<open>joinWith sep xs\<close> is the list \<open>xs\<close> written with \<open>sep\<close> between its elements.\<close>

fun joinWith :: "string \<Rightarrow> string list \<Rightarrow> string" where
  "joinWith sep [] = []"
| "joinWith sep (x # xs) = x @ concat (map (\<lambda>y. sep @ y) xs)"

definition listOrEmpty :: "'a list option \<Rightarrow> 'a list" where
  "listOrEmpty xs = (case xs of None \<Rightarrow> [] | Some ys \<Rightarrow> ys)"

text \<open>
  Text of a class descriptor as it appears in Java source, that is identifiers, type
  expressions and modifiers: it holds no line break, no \<^verbatim>\<open>@\<close>, no parenthesis, no semicolon
  and no closing brace.  A parameter has such a type and a non-empty such name.
\<close>

definition plainText :: "string \<Rightarrow> bool" where
  "plainText s \<longleftrightarrow>
     NL \<notin> set s \<and> CHR ''@'' \<notin> set s \<and> CHR ''('' \<notin> set s \<and> CHR '';'' \<notin> set s
       \<and> CHR ''}'' \<notin> set s"

definition plainParameter :: "Parameter \<Rightarrow> bool" where
  "plainParameter p \<longleftrightarrow> plainText (type p) \<and> plainText (name p) \<and> name p \<noteq> []"

definition plainMethod :: "MethodSignature \<Rightarrow> bool" where
  "plainMethod m \<longleftrightarrow>
     plainText (mname m) \<and> plainText (returnType m)
       \<and> list_all plainParameter (listOrEmpty (parameters m))"

definition plainClass :: "JavaClass \<Rightarrow> bool" where
  "plainClass c \<longleftrightarrow>
     plainText (className c) \<and> plainText (accessModifier c) \<and> plainText (classParameters c)
       \<and> list_all plainParameter (listOrEmpty (constructorParameters c))
       \<and> list_all plainMethod (listOrEmpty (publicMethods c))"

text \<open>
  The argument lists the two parameter loops build, started as \<open>createTestClass\<close> starts
  them, with the empty list.
\<close>

definition constructorArguments :: "Parameter list \<Rightarrow> string" where
  "constructorArguments ps = fst (constructorParametersLoop ps ([], []))"

definition methodArguments :: "Parameter list \<Rightarrow> string" where
  "methodArguments ps = fst (methodParametersLoop ps ([], []))"

text \<open>
  The text one pass of each loop of \<open>createTestClass\<close> adds: a mock field, the declaration
  of one argument of a method call, and a test method made of its header, the argument
  declarations, the call and the closing lines.
\<close>

definition mockFieldText :: "Parameter \<Rightarrow> string" where
  "mockFieldText p =
     [TAB] @ ''@Mock'' @ [NL, TAB] @ ''private '' @ type p @ '' ''
       @ lowercaseFirstLetter (name p) @ '';'' @ [NL]"

definition argumentDeclarations :: "Parameter list option \<Rightarrow> string" where
  "argumentDeclarations ps =
     (if listOrEmpty ps = [] then []
      else [TAB, TAB] @ ''// TODO: initialize args'' @ [NL]
        @ concat (map (\<lambda>p. [TAB, TAB] @ type p @ '' '' @ name p @ '';'' @ [NL])
            (listOrEmpty ps))
        @ [NL])"

definition testMethodText :: "string \<Rightarrow> MethodSignature \<Rightarrow> string" where
  "testMethodText varName m =
     ''should'' @ capitalizeFirstLetter (mname m) @ ''() {'' @ [NL]
       @ argumentDeclarations (parameters m)
       @ (if returnType m \<noteq> ''void''
          then [TAB, TAB] @ returnType m @ '' actualValue = ''
          else [TAB, TAB])
       @ varName @ ''.'' @ mname m @ ''(''
       @ methodArguments (listOrEmpty (parameters m)) @ '');''
       @ [NL, NL, TAB, TAB] @ ''// TODO: assert scenario'' @ [NL, TAB]"

definition defaultTestMethodText :: string where
  "defaultTestMethodText =
     ''shouldCompile() {'' @ [NL, TAB, TAB] @ ''assertThat('' @ [DQ] @ ''Actual value''
       @ [DQ] @ '', is('' @ [DQ] @ ''Expected value'' @ [DQ] @ ''));'' @ [NL, TAB]"

text \<open>
  The parts of the text \<open>createTestClass\<close> returns: the class header, the instance field
  with the setup method (for a given argument list of the constructor call), and the test
  methods.
\<close>

definition classHeaderText :: "JavaClass \<Rightarrow> string" where
  "classHeaderText c =
     [NL] @ ''@RunWith(MockitoJUnitRunner.class)'' @ [NL] @ accessModifier c
       @ ''class '' @ className c @ ''Test {'' @ [NL]"

definition setupText :: "JavaClass \<Rightarrow> string \<Rightarrow> string" where
  "setupText c args =
     [NL, TAB] @ ''private '' @ className c @ classParameters c @ '' ''
       @ lowercaseFirstLetter (className c) @ '';'' @ [NL, NL, TAB]
       @ ''@Before'' @ [NL, TAB] @ ''public void setup() {'' @ [NL, TAB, TAB]
       @ ''this.'' @ lowercaseFirstLetter (className c) @ '' = new '' @ className c
       @ classParameters c @ ''('' @ args @ '');'' @ [NL, TAB] @ ''}'' @ [NL]"

definition testsText :: "JavaClass \<Rightarrow> string" where
  "testsText c =
     (if listOrEmpty (publicMethods c) = []
      then [TAB] @ ''@Test'' @ [NL, TAB] @ ''public void '' @ defaultTestMethodText
             @ ''}'' @ [NL]
      else concat (map (\<lambda>m. [NL, TAB] @ ''@Test'' @ [NL, TAB] @ ''public void ''
             @ testMethodText (lowercaseFirstLetter (className c)) m @ ''}'' @ [NL])
             (listOrEmpty (publicMethods c))))"

text \<open>
  Class descriptors for the statements at concrete inputs: the calculator of the
  spec's first scenario with a second constructor parameter, a second method and a
  constructor parameter written with an upper-case first letter; a helper class with no
  constructor parameters and no public methods; the same with both sequences absent,
  as a descriptor with optional fields; and that one without its class parameters.
\<close>

definition calculatorClass :: JavaClass where
  "calculatorClass =
     \<lparr>className = ''Calculator'', accessModifier = ''public '', classParameters = [],
      constructorParameters = Some [\<lparr>type = ''Logger'', name = ''Logger''\<rparr>,
        \<lparr>type = ''Map<String, Integer>'', name = ''cache''\<rparr>],
      publicMethods = Some
        [\<lparr>mname = ''add'', returnType = ''int'',
          parameters = Some [\<lparr>type = ''int'', name = ''a''\<rparr>, \<lparr>type = ''int'', name = ''b''\<rparr>]\<rparr>,
         \<lparr>mname = ''reset'', returnType = ''void'', parameters = Some []\<rparr>]\<rparr>"

definition helperClass :: JavaClass where
  "helperClass =
     \<lparr>className = ''Helper'', accessModifier = ''public '', classParameters = [],
      constructorParameters = Some [], publicMethods = Some []\<rparr>"



section \<open>Case conversion of the first letter\<close>

lemma lowercaseFirstLetter_Nil: "lowercaseFirstLetter [] = []"
  by (simp add: lowercaseFirstLetter_def charAt_def slice_def toLowerCase_def)

lemma lowercaseFirstLetter_Cons: "lowercaseFirstLetter (c # cs) = toLowerCaseChar c # cs"
  by (simp add: lowercaseFirstLetter_def charAt_def slice_def toLowerCase_def)

lemma capitalizeFirstLetter_Nil: "capitalizeFirstLetter [] = []"
  by (simp add: capitalizeFirstLetter_def charAt_def slice_def toUpperCase_def)

lemma capitalizeFirstLetter_Cons: "capitalizeFirstLetter (c # cs) = toUpperCaseChar c # cs"
  by (simp add: capitalizeFirstLetter_def charAt_def slice_def toUpperCase_def)

lemma toLowerCaseChar_cases:
  "toLowerCaseChar c = c \<or> (c \<in> set upperLetters \<and> toLowerCaseChar c \<in> set lowerLetters)"
proof (cases "map_of (zip upperLetters lowerLetters) c")
  case None
  then show ?thesis by (simp add: toLowerCaseChar_def)
next
  case (Some l)
  then have "(c, l) \<in> set (zip upperLetters lowerLetters)" by (rule map_of_SomeD)
  then have "c \<in> set upperLetters" "l \<in> set lowerLetters"
    by (auto dest: set_zip_leftD set_zip_rightD)
  with Some show ?thesis by (simp add: toLowerCaseChar_def)
qed

lemma toUpperCaseChar_cases:
  "toUpperCaseChar c = c \<or> (c \<in> set lowerLetters \<and> toUpperCaseChar c \<in> set upperLetters)"
proof (cases "map_of (zip lowerLetters upperLetters) c")
  case None
  then show ?thesis by (simp add: toUpperCaseChar_def)
next
  case (Some l)
  then have "(c, l) \<in> set (zip lowerLetters upperLetters)" by (rule map_of_SomeD)
  then have "c \<in> set lowerLetters" "l \<in> set upperLetters"
    by (auto dest: set_zip_leftD set_zip_rightD)
  with Some show ?thesis by (simp add: toUpperCaseChar_def)
qed

lemma toLowerCaseChar_eq_iff:
  assumes "x \<notin> set upperLetters" "x \<notin> set lowerLetters"
  shows "toLowerCaseChar c = x \<longleftrightarrow> c = x"
  using toLowerCaseChar_cases [of c] assms by auto

lemma toUpperCaseChar_eq_iff:
  assumes "x \<notin> set upperLetters" "x \<notin> set lowerLetters"
  shows "toUpperCaseChar c = x \<longleftrightarrow> c = x"
  using toUpperCaseChar_cases [of c] assms by auto

lemma mem_lowercaseFirstLetter:
  assumes "x \<notin> set upperLetters" "x \<notin> set lowerLetters"
  shows "x \<in> set (lowercaseFirstLetter s) \<longleftrightarrow> x \<in> set s"
proof -
  have "\<And>c. (x = toLowerCaseChar c) = (x = c)"
    using toLowerCaseChar_eq_iff [OF assms] by metis
  then show ?thesis
    by (cases s) (simp_all add: lowercaseFirstLetter_Nil lowercaseFirstLetter_Cons)
qed

lemma mem_capitalizeFirstLetter:
  assumes "x \<notin> set upperLetters" "x \<notin> set lowerLetters"
  shows "x \<in> set (capitalizeFirstLetter s) \<longleftrightarrow> x \<in> set s"
proof -
  have "\<And>c. (x = toUpperCaseChar c) = (x = c)"
    using toUpperCaseChar_eq_iff [OF assms] by metis
  then show ?thesis
    by (cases s) (simp_all add: capitalizeFirstLetter_Nil capitalizeFirstLetter_Cons)
qed

lemma plainText_lowercaseFirstLetter: "plainText (lowercaseFirstLetter s) = plainText s"
  by (simp add: plainText_def mem_lowercaseFirstLetter upperLetters_def lowerLetters_def)

lemma lowercaseFirstLetter_eq_Nil: "lowercaseFirstLetter s = [] \<longleftrightarrow> s = []"
  by (cases s) (simp_all add: lowercaseFirstLetter_Nil lowercaseFirstLetter_Cons)






section \<open>The loops in closed form\<close>

lemma constructorParametersLoop_snd:
  "snd (constructorParametersLoop ps (args, tcc)) = tcc @ concat (map mockFieldText ps)"
  by (induction ps arbitrary: args tcc) (simp_all add: mockFieldText_def Let_def)

lemma methodParametersLoop_snd:
  "snd (methodParametersLoop ps (args, tcc)) =
     tcc @ concat (map (\<lambda>p. [TAB, TAB] @ type p @ '' '' @ name p @ '';'' @ [NL]) ps)"
  by (induction ps arbitrary: args tcc) (simp_all add: Let_def)

text \<open>The argument list does not depend on the content built so far.\<close>

lemma constructorParametersLoop_fst_content:
  "fst (constructorParametersLoop ps (args, tcc)) =
     fst (constructorParametersLoop ps (args, tcc'))"
proof (induction ps arbitrary: args tcc tcc')
  case Nil
  show ?case by simp
next
  case (Cons p ps)
  show ?case by (simp add: Let_def) (intro conjI impI; rule Cons.IH)
qed

lemma methodParametersLoop_fst_content:
  "fst (methodParametersLoop ps (args, tcc)) = fst (methodParametersLoop ps (args, tcc'))"
proof (induction ps arbitrary: args tcc tcc')
  case Nil
  show ?case by simp
next
  case (Cons p ps)
  show ?case by (simp add: Let_def) (intro conjI impI; rule Cons.IH)
qed

lemma constructorParametersLoop_closed:
  "constructorParametersLoop ps ([], tcc) =
     (constructorArguments ps, tcc @ concat (map mockFieldText ps))"
proof (rule prod_eqI)
  show "fst (constructorParametersLoop ps ([], tcc)) =
      fst (constructorArguments ps, tcc @ concat (map mockFieldText ps))"
    using constructorParametersLoop_fst_content [of ps "[]" tcc "[]"]
    by (simp add: constructorArguments_def)
  show "snd (constructorParametersLoop ps ([], tcc)) =
      snd (constructorArguments ps, tcc @ concat (map mockFieldText ps))"
    by (simp add: constructorParametersLoop_snd)
qed

lemma methodParametersLoop_closed:
  "methodParametersLoop ps ([], tcc) =
     (methodArguments ps,
      tcc @ concat (map (\<lambda>p. [TAB, TAB] @ type p @ '' '' @ name p @ '';'' @ [NL]) ps))"
proof (rule prod_eqI)
  show "fst (methodParametersLoop ps ([], tcc)) =
      fst (methodArguments ps,
        tcc @ concat (map (\<lambda>p. [TAB, TAB] @ type p @ '' '' @ name p @ '';'' @ [NL]) ps))"
    using methodParametersLoop_fst_content [of ps "[]" tcc "[]"]
    by (simp add: methodArguments_def)
  show "snd (methodParametersLoop ps ([], tcc)) =
      snd (methodArguments ps,
        tcc @ concat (map (\<lambda>p. [TAB, TAB] @ type p @ '' '' @ name p @ '';'' @ [NL]) ps))"
    by (simp add: methodParametersLoop_snd)
qed

lemma constructorArguments_Nil: "constructorArguments [] = []"
  by (simp add: constructorArguments_def)

text \<open>When no parameter name is empty, the argument list is the list of the names
  with a comma and a space between them.\<close>

lemma constructorParametersLoop_fst_nonempty:
  "args \<noteq> [] \<Longrightarrow>
     fst (constructorParametersLoop ps (args, tcc)) =
       args @ concat (map (\<lambda>p. '', '' @ lowercaseFirstLetter (name p)) ps)"
  by (induction ps arbitrary: args tcc) (simp_all add: Let_def)

lemma methodParametersLoop_fst_nonempty:
  "args \<noteq> [] \<Longrightarrow>
     fst (methodParametersLoop ps (args, tcc)) =
       args @ concat (map (\<lambda>p. '', '' @ name p) ps)"
  by (induction ps arbitrary: args tcc) (simp_all add: Let_def)

lemma constructorArguments_joinWith:
  assumes "list_all (\<lambda>p. name p \<noteq> []) ps"
  shows "constructorArguments ps =
           joinWith '', '' (map (\<lambda>p. lowercaseFirstLetter (name p)) ps)"
proof (cases ps)
  case Nil
  then show ?thesis by (simp add: constructorArguments_def)
next
  case (Cons p qs)
  with assms have "lowercaseFirstLetter (name p) \<noteq> []"
    by (simp add: lowercaseFirstLetter_eq_Nil)
  then show ?thesis
    using Cons
    by (simp add: constructorArguments_def Let_def constructorParametersLoop_fst_nonempty
        comp_def)
qed

lemma methodArguments_joinWith:
  assumes "list_all (\<lambda>p. name p \<noteq> []) ps"
  shows "methodArguments ps = joinWith '', '' (map name ps)"
proof (cases ps)
  case Nil
  then show ?thesis by (simp add: methodArguments_def)
next
  case (Cons p qs)
  with assms have "name p \<noteq> []" by simp
  then show ?thesis
    using Cons
    by (simp add: methodArguments_def Let_def methodParametersLoop_fst_nonempty comp_def)
qed

text \<open>One pass of the loop over the public methods, and the whole loop.\<close>

lemma publicMethodsLoop_Cons:
  "publicMethodsLoop v (m # ms) tcc =
     publicMethodsLoop v ms
       (tcc @ [NL, TAB] @ ''@Test'' @ [NL, TAB] @ ''public void '' @ testMethodText v m
          @ ''}'' @ [NL])"
proof (cases "parameters m")
  case None
  then show ?thesis
    by (simp add: testMethodText_def argumentDeclarations_def listOrEmpty_def Let_def
        methodArguments_def)
next
  case (Some ps)
  show ?thesis
  proof (cases "ps = []")
    case True
    with Some show ?thesis
      by (simp add: testMethodText_def argumentDeclarations_def listOrEmpty_def Let_def
          methodArguments_def)
  next
    case False
    with Some show ?thesis
      by (simp add: Let_def methodParametersLoop_closed testMethodText_def
          argumentDeclarations_def listOrEmpty_def)
  qed
qed

lemma publicMethodsLoop_closed:
  "publicMethodsLoop v ms tcc =
     tcc @ concat (map (\<lambda>m. [NL, TAB] @ ''@Test'' @ [NL, TAB] @ ''public void ''
       @ testMethodText v m @ ''}'' @ [NL]) ms)"
proof (induction ms arbitrary: tcc)
  case Nil
  show ?case by simp
next
  case (Cons m ms)
  show ?case
    by (simp only: publicMethodsLoop_Cons Cons.IH) simp
qed

text \<open>The text \<open>createTestClass\<close> returns, for every class descriptor.\<close>

lemma createTestClass_closed:
  "createTestClass c =
     classHeaderText c
       @ concat (map mockFieldText (listOrEmpty (constructorParameters c)))
       @ setupText c (constructorArguments (listOrEmpty (constructorParameters c)))
       @ testsText c @ ''}'' @ [NL]"
proof -
  have ctor: "(case constructorParameters c of
               None \<Rightarrow> ([], classHeaderText c)
             | Some ps \<Rightarrow>
                 if length ps > 0
                 then constructorParametersLoop ps ([], classHeaderText c)
                 else ([], classHeaderText c))
     = (constructorArguments (listOrEmpty (constructorParameters c)),
        classHeaderText c @ concat (map mockFieldText (listOrEmpty (constructorParameters c))))"
    by (cases "constructorParameters c")
      (auto simp: listOrEmpty_def constructorParametersLoop_closed constructorArguments_Nil)
  have tests: "\<And>t. (case publicMethods c of
               None \<Rightarrow> t @ [TAB] @ ''@Test'' @ [NL, TAB]
                   @ ''public void shouldCompile() {'' @ [NL, TAB, TAB] @ ''assertThat(''
                   @ [DQ] @ ''Actual value'' @ [DQ] @ '', is('' @ [DQ] @ ''Expected value''
                   @ [DQ] @ ''));'' @ [NL, TAB] @ ''}'' @ [NL]
             | Some ms \<Rightarrow>
                 if length ms \<noteq> 0
                 then publicMethodsLoop (lowercaseFirstLetter (className c)) ms t
                 else
                   t @ [TAB] @ ''@Test'' @ [NL, TAB]
                     @ ''public void shouldCompile() {'' @ [NL, TAB, TAB] @ ''assertThat(''
                     @ [DQ] @ ''Actual value'' @ [DQ] @ '', is('' @ [DQ] @ ''Expected value''
                     @ [DQ] @ ''));'' @ [NL, TAB] @ ''}'' @ [NL])
     = t @ testsText c"
    by (cases "publicMethods c")
      (auto simp: listOrEmpty_def testsText_def defaultTestMethodText_def publicMethodsLoop_closed)
  show ?thesis
    unfolding createTestClass_def Let_def
    apply (subst classHeaderText_def [symmetric])+
    apply (simp only: ctor prod.case tests)
    apply (simp add: setupText_def)
    done
qed




section \<open>What the generated text holds\<close>

lemma textsAfter_skip:
  "a \<notin> set s \<Longrightarrow> textsAfter (a # m) stop (s @ t) = textsAfter (a # m) stop t"
  by (induction s) auto

lemma takeWhile_skip:
  "stop \<notin> set s \<Longrightarrow>
     takeWhile (\<lambda>x. x \<noteq> stop) (s @ t) = s @ takeWhile (\<lambda>x. x \<noteq> stop) t"
  by (induction s) auto

lemma mem_joinWith:
  "x \<notin> set sep \<Longrightarrow> (\<forall>y \<in> set ys. x \<notin> set y) \<Longrightarrow> x \<notin> set (joinWith sep ys)"
  by (cases ys) auto

lemmas special_simps =
  mem_lowercaseFirstLetter mem_capitalizeFirstLetter upperLetters_def lowerLetters_def
  textsAfter_skip takeWhile_skip



lemma plainParameter_names:
  "list_all plainParameter ps \<Longrightarrow> list_all (\<lambda>p. name p \<noteq> []) ps"
  by (induction ps) (simp_all add: plainParameter_def)

lemma notin_argumentList:
  assumes "list_all plainParameter ps" "x \<in> {CHR ''@'', CHR ''}'', CHR '';'', CHR ''(''}"
  shows "x \<notin> set (methodArguments ps)"
  unfolding methodArguments_joinWith [OF plainParameter_names [OF assms(1)]]
proof (rule mem_joinWith)
  show "x \<notin> set '', ''" using assms(2) by auto
  show "\<forall>y\<in>set (map name ps). x \<notin> set y"
    using assms by (auto simp: list_all_iff plainParameter_def plainText_def)
qed

lemma notin_constructorArgs:
  assumes "list_all plainParameter ps" "x \<in> {CHR ''@'', CHR ''}'', CHR '';'', CHR ''(''}"
  shows "x \<notin> set (constructorArguments ps)"
  unfolding constructorArguments_joinWith [OF plainParameter_names [OF assms(1)]]
proof (rule mem_joinWith)
  show "x \<notin> set '', ''" using assms(2) by auto
  show "\<forall>y\<in>set (map (\<lambda>p. lowercaseFirstLetter (name p)) ps). x \<notin> set y"
    using assms
    by (auto simp: list_all_iff plainParameter_def plainText_def mem_lowercaseFirstLetter
        upperLetters_def lowerLetters_def)
qed

lemma notin_argumentDeclarations:
  assumes "list_all plainParameter (listOrEmpty ps)" "x \<in> {CHR ''@'', CHR ''}'', CHR ''(''}"
  shows "x \<notin> set (argumentDeclarations ps)"
  using assms
  by (auto simp: argumentDeclarations_def list_all_iff plainParameter_def plainText_def)

text \<open>A part of the class that does not hold the marker is passed over.\<close>

lemma textsAfter_header:
  assumes "plainText (className c)" "plainText (accessModifier c)" "x \<noteq> CHR ''R''"
  shows "textsAfter (CHR ''@'' # x # m) stop (classHeaderText c @ r) =
           textsAfter (CHR ''@'' # x # m) stop r"
  using assms unfolding plainText_def classHeaderText_def
  by (simp add: special_simps)

lemma textsAfter_mockFields:
  assumes "list_all plainParameter ps" "x \<noteq> CHR ''M''"
  shows "textsAfter (CHR ''@'' # x # m) stop (concat (map mockFieldText ps) @ r) =
           textsAfter (CHR ''@'' # x # m) stop r"
  using assms(1)
proof (induction ps)
  case Nil
  show ?case by simp
next
  case (Cons p ps)
  then have p: "plainParameter p" and ps: "list_all plainParameter ps" by simp_all
  have "textsAfter (CHR ''@'' # x # m) stop (mockFieldText p @ r') =
          textsAfter (CHR ''@'' # x # m) stop r'" for r'
    using p assms(2) unfolding plainParameter_def plainText_def mockFieldText_def
    by (simp add: special_simps)
  then show ?case using Cons.IH [OF ps] by simp
qed

lemma textsAfter_setup:
  assumes "plainText (className c)" "plainText (classParameters c)" "CHR ''@'' \<notin> set args"
    "x \<noteq> CHR ''B''"
  shows "textsAfter (CHR ''@'' # x # m) stop (setupText c args @ r) =
           textsAfter (CHR ''@'' # x # m) stop r"
  using assms unfolding plainText_def setupText_def
  by (simp add: special_simps)



lemma testMethod_fragment:
  assumes "plainMethod a" "plainText v" "stop = CHR ''('' \<or> stop = CHR ''}''"
  shows "textsAfter (''@Test'' @ [NL, TAB] @ ''public void '') stop
           (([NL, TAB] @ ''@Test'' @ [NL, TAB] @ ''public void ''
             @ testMethodText v a @ ''}'' @ [NL]) @ r) =
         (if stop = CHR ''('' then ''should'' @ capitalizeFirstLetter (mname a)
          else testMethodText v a)
         # textsAfter (''@Test'' @ [NL, TAB] @ ''public void '') stop r"
proof -
  from assms(1) have 1: "CHR ''@'' \<notin> set (argumentDeclarations (parameters a))"
      "CHR ''}'' \<notin> set (argumentDeclarations (parameters a))"
    and 2: "CHR ''@'' \<notin> set (methodArguments (listOrEmpty (parameters a)))"
      "CHR ''}'' \<notin> set (methodArguments (listOrEmpty (parameters a)))"
    by (simp_all add: plainMethod_def notin_argumentDeclarations notin_argumentList)
  from assms(1) have 3: "plainText (mname a)" "plainText (returnType a)"
    by (simp_all add: plainMethod_def)
  from assms(3) show ?thesis
  proof
    assume s: "stop = CHR ''(''"
    show ?thesis
      using 1 2 3 assms(2) unfolding s testMethodText_def plainText_def
      by (simp add: special_simps)
  next
    assume s: "stop = CHR ''}''"
    show ?thesis
      using 1 2 3 assms(2) unfolding s testMethodText_def plainText_def
      by (simp add: special_simps)
  qed
qed

lemma testMethods_fragments:
  assumes "list_all plainMethod ms" "plainText v" "stop = CHR ''('' \<or> stop = CHR ''}''"
  shows "textsAfter (''@Test'' @ [NL, TAB] @ ''public void '') stop
           (concat (map (\<lambda>a. [NL, TAB] @ ''@Test'' @ [NL, TAB] @ ''public void ''
             @ testMethodText v a @ ''}'' @ [NL]) ms) @ r) =
         map (\<lambda>a. if stop = CHR ''('' then ''should'' @ capitalizeFirstLetter (mname a)
                  else testMethodText v a) ms
         @ textsAfter (''@Test'' @ [NL, TAB] @ ''public void '') stop r"
  using assms(1)
proof (induction ms)
  case Nil
  show ?case by simp
next
  case (Cons a ms)
  then have a: "plainMethod a" and ms: "list_all plainMethod ms" by simp_all
  show ?case
    using testMethod_fragment [OF a assms(2,3)] Cons.IH [OF ms] by simp
qed

lemma defaultTest_fragment:
  assumes "stop = CHR ''('' \<or> stop = CHR ''}''"
  shows "textsAfter (''@Test'' @ [NL, TAB] @ ''public void '') stop
           (([TAB] @ ''@Test'' @ [NL, TAB] @ ''public void '' @ defaultTestMethodText
             @ ''}'' @ [NL]) @ r) =
         (if stop = CHR ''('' then ''shouldCompile'' else defaultTestMethodText)
         # textsAfter (''@Test'' @ [NL, TAB] @ ''public void '') stop r"
  using assms
proof
  assume s: "stop = CHR ''(''"
  show ?thesis unfolding s defaultTestMethodText_def by simp
next
  assume s: "stop = CHR ''}''"
  show ?thesis unfolding s defaultTestMethodText_def by simp
qed

lemma plainMethod_names:
  "list_all plainMethod ms \<Longrightarrow>
     list_all (\<lambda>m. list_all (\<lambda>p. name p \<noteq> []) (listOrEmpty (parameters m))) ms"
  by (induction ms) (simp_all add: plainMethod_def plainParameter_names)



lemma testMethods_createTestClass:
  assumes "plainClass c" "stop = CHR ''('' \<or> stop = CHR ''}''"
  shows "textsAfter (''@Test'' @ [NL, TAB] @ ''public void '') stop (createTestClass c) =
     (if listOrEmpty (publicMethods c) = []
      then [if stop = CHR ''('' then ''shouldCompile'' else defaultTestMethodText]
      else map (\<lambda>a. if stop = CHR ''(''
                     then ''should'' @ capitalizeFirstLetter (mname a)
                     else testMethodText (lowercaseFirstLetter (className c)) a)
             (listOrEmpty (publicMethods c)))"
proof -
  let ?ps = "listOrEmpty (constructorParameters c)"
  let ?args = "constructorArguments ?ps"
  let ?T = "textsAfter (''@Test'' @ [NL, TAB] @ ''public void '') stop"
  from assms have pc: "plainText (className c)" "plainText (accessModifier c)"
    "plainText (classParameters c)" "list_all plainParameter ?ps"
    "list_all plainMethod (listOrEmpty (publicMethods c))"
    by (simp_all add: plainClass_def)
  have args: "CHR ''@'' \<notin> set ?args" "CHR '';'' \<notin> set ?args"
    using pc(4) by (simp_all add: notin_constructorArgs)
  have v: "plainText (lowercaseFirstLetter (className c))"
    using pc(1) by (simp add: plainText_lowercaseFirstLetter)
  have "?T (createTestClass c) = ?T (testsText c @ ''}'' @ [NL])"
    unfolding createTestClass_closed [of c]
    by (simp add: textsAfter_header textsAfter_mockFields textsAfter_setup pc args)
  also have "\<dots> =
     (if listOrEmpty (publicMethods c) = []
      then [if stop = CHR ''('' then ''shouldCompile'' else defaultTestMethodText]
      else map (\<lambda>a. if stop = CHR ''(''
                     then ''should'' @ capitalizeFirstLetter (mname a)
                     else testMethodText (lowercaseFirstLetter (className c)) a)
             (listOrEmpty (publicMethods c))) @ ?T (''}'' @ [NL])"
    unfolding testsText_def
    using testMethods_fragments [OF pc(5) v assms(2), of "''}'' @ [NL]"]
      defaultTest_fragment [OF assms(2), of "''}'' @ [NL]"]
    by (simp del: textsAfter.simps)
  also have "?T (''}'' @ [NL]) = []" by simp
  finally show ?thesis by simp
qed

text \<open>The test methods of a class with public methods stand at the end of the class,
  one after the other.\<close>

lemma createTestClass_methods:
  assumes "publicMethods c = Some ms" "ms \<noteq> []"
  shows "\<exists>before. createTestClass c =
      before @ concat (map (\<lambda>m. [NL, TAB] @ ''@Test'' @ [NL, TAB] @ ''public void ''
        @ testMethodText (lowercaseFirstLetter (className c)) m @ ''}'' @ [NL]) ms)
      @ ''}'' @ [NL]"
proof -
  have "createTestClass c =
     (classHeaderText c
       @ concat (map mockFieldText (listOrEmpty (constructorParameters c)))
       @ setupText c (constructorArguments (listOrEmpty (constructorParameters c))))
       @ concat (map (\<lambda>m. [NL, TAB] @ ''@Test'' @ [NL, TAB] @ ''public void ''
        @ testMethodText (lowercaseFirstLetter (className c)) m @ ''}'' @ [NL]) ms)
       @ ''}'' @ [NL]"
    using assms by (simp add: createTestClass_closed [of c] testsText_def listOrEmpty_def)
  then show ?thesis by blast
qed

section \<open>The claims\<close>

lemma startsWith_append: "startsWith (p @ s) p"
  by (induction p) simp_all

lemma plainClass_calculatorClass: "plainClass calculatorClass"
  by (simp add: calculatorClass_def plainClass_def plainMethod_def plainParameter_def
      plainText_def listOrEmpty_def)

lemma plainClass_helperClass: "plainClass helperClass"
  by (simp add: helperClass_def plainClass_def plainMethod_def plainParameter_def
      plainText_def listOrEmpty_def)

lemmas case_simps =
  capitalizeFirstLetter_Cons lowercaseFirstLetter_Cons toUpperCaseChar_def toLowerCaseChar_def
  upperLetters_def lowerLetters_def

lemma observers_createDefaultTestClass:
  assumes "plainText javaClassName" "plainText testClassName"
  shows "fieldDeclarations (createDefaultTestClass javaClassName testClassName) =
           [javaClassName @ '' cut'']"
    and "setupStatements (createDefaultTestClass javaClassName testClassName) =
           [''this.cut = new '' @ javaClassName @ ''()'']"
    and "testMethodTexts (createDefaultTestClass javaClassName testClassName) =
           [defaultTestMethodText]"
  using assms
  unfolding plainText_def createDefaultTestClass_def fieldDeclarations_def
    setupStatements_def testMethodTexts_def defaultTestMethodText_def
  by (simp_all add: textsAfter_skip takeWhile_skip)

text \<open>
  Claim C1.  From a non-empty array of class descriptors one class is chosen and the file
  is the package declaration, the imports and the test class of that class.  The chosen
  class is the first one whose access modifier starts with \<^verbatim>\<open>public\<close>, and the array is
  left as it is; when no access modifier starts with \<^verbatim>\<open>public\<close>, it is the first class of
  the array with its \<^verbatim>\<open>accessModifier\<close> set to \<^verbatim>\<open>public\<close> and a space, and the array holds
  the changed class in first place, and the test class is declared \<^verbatim>\<open>public class\<close>.
\<close>

theorem C1_public_class_selection:
  assumes "javaClasses \<noteq> []"
  shows "\<exists>publicClass javaClasses'.
      findOrSetPublicClass javaClasses = Inr (publicClass, javaClasses')
    \<and> generateTestClassFileContent (Some javaClasses) javaClassName testFileUri testClassName =
        Inr (generateTestClassPackageDeclaration testFileUri testClassName
          @ createDefaultImports @ createTestClass publicClass)
    \<and> (\<forall>i. i < length javaClasses
            \<and> startsWith (accessModifier (javaClasses ! i)) ''public''
            \<and> (\<forall>j. j < i \<longrightarrow> \<not> startsWith (accessModifier (javaClasses ! j)) ''public'')
          \<longrightarrow> publicClass = javaClasses ! i \<and> javaClasses' = javaClasses)
    \<and> ((\<forall>c \<in> set javaClasses. \<not> startsWith (accessModifier c) ''public'')
          \<longrightarrow> publicClass = (javaClasses ! 0)\<lparr>accessModifier := ''public ''\<rparr>
            \<and> javaClasses' = javaClasses[0 := publicClass]
            \<and> (\<exists>body. createTestClass publicClass =
                  [NL] @ ''@RunWith(MockitoJUnitRunner.class)'' @ [NL] @ ''public class ''
                    @ className (javaClasses ! 0) @ ''Test {'' @ [NL] @ body))"
proof (cases "find (\<lambda>c. startsWith (accessModifier c) ''public'') javaClasses")
  case None
  then have none: "\<forall>c \<in> set javaClasses. \<not> startsWith (accessModifier c) ''public''"
    by (auto simp: find_None_iff)
  obtain first others where cs: "javaClasses = first # others"
    using assms by (cases javaClasses) auto
  let ?p = "first\<lparr>accessModifier := ''public ''\<rparr>"
  have sel: "findOrSetPublicClass javaClasses = Inr (?p, ?p # others)"
    using None cs by (simp add: findOrSetPublicClass_def Let_def)
  have gen: "generateTestClassFileContent (Some javaClasses) javaClassName testFileUri
        testClassName =
      Inr (generateTestClassPackageDeclaration testFileUri testClassName
          @ createDefaultImports @ createTestClass ?p)"
    using sel cs by (simp add: generateTestClassFileContent_def Let_def Buffer_from_utf8_def)
  have "createTestClass ?p =
      [NL] @ ''@RunWith(MockitoJUnitRunner.class)'' @ [NL] @ ''public class ''
        @ className first @ ''Test {'' @ [NL]
        @ (concat (map mockFieldText (listOrEmpty (constructorParameters ?p)))
           @ setupText ?p (constructorArguments (listOrEmpty (constructorParameters ?p)))
           @ testsText ?p @ ''}'' @ [NL])"
    by (simp add: createTestClass_closed [of ?p] classHeaderText_def)
  then have hdr: "\<exists>body. createTestClass ?p =
      [NL] @ ''@RunWith(MockitoJUnitRunner.class)'' @ [NL] @ ''public class ''
        @ className first @ ''Test {'' @ [NL] @ body"
    by blast
  have "\<not> (i < length javaClasses \<and> startsWith (accessModifier (javaClasses ! i)) ''public'')"
    for i using none nth_mem by blast
  then show ?thesis
    using sel gen cs hdr by auto
next
  case (Some p)
  then obtain k where k: "k < length javaClasses"
    "startsWith (accessModifier (javaClasses ! k)) ''public''"
    "p = javaClasses ! k"
    "\<forall>j<k. \<not> startsWith (accessModifier (javaClasses ! j)) ''public''"
    by (auto simp: find_Some_iff)
  have sel: "findOrSetPublicClass javaClasses = Inr (p, javaClasses)"
    using Some by (simp add: findOrSetPublicClass_def)
  have gen: "generateTestClassFileContent (Some javaClasses) javaClassName testFileUri
        testClassName =
      Inr (generateTestClassPackageDeclaration testFileUri testClassName
          @ createDefaultImports @ createTestClass p)"
    using sel assms by (simp add: generateTestClassFileContent_def Let_def Buffer_from_utf8_def)
  have first: "i = k" if "i < length javaClasses"
    "startsWith (accessModifier (javaClasses ! i)) ''public''"
    "\<forall>j. j < i \<longrightarrow> \<not> startsWith (accessModifier (javaClasses ! j)) ''public''" for i
    using that k by (meson linorder_neqE_nat)
  have "\<not> (\<forall>c \<in> set javaClasses. \<not> startsWith (accessModifier c) ''public'')"
    using k(1,2) nth_mem by blast
  then show ?thesis
    using sel gen k(3) first by auto
qed

text \<open>
  The statement of C1 at two arrays: a package-private class before a public one, and
  two classes none of which is public.
\<close>

theorem C1_public_class_selection_witness:
  "findOrSetPublicClass
     [\<lparr>className = ''Helper'', accessModifier = [], classParameters = [],
        constructorParameters = None, publicMethods = None\<rparr>,
      \<lparr>className = ''Main'', accessModifier = ''public '', classParameters = [],
        constructorParameters = None, publicMethods = None\<rparr>]
   = Inr (\<lparr>className = ''Main'', accessModifier = ''public '', classParameters = [],
            constructorParameters = None, publicMethods = None\<rparr>,
          [\<lparr>className = ''Helper'', accessModifier = [], classParameters = [],
             constructorParameters = None, publicMethods = None\<rparr>,
           \<lparr>className = ''Main'', accessModifier = ''public '', classParameters = [],
             constructorParameters = None, publicMethods = None\<rparr>])
   \<and> findOrSetPublicClass
     [\<lparr>className = ''Helper'', accessModifier = [], classParameters = [],
        constructorParameters = None, publicMethods = None\<rparr>,
      \<lparr>className = ''Other'', accessModifier = ''final '', classParameters = [],
        constructorParameters = None, publicMethods = None\<rparr>]
   = Inr (\<lparr>className = ''Helper'', accessModifier = ''public '', classParameters = [],
            constructorParameters = None, publicMethods = None\<rparr>,
          [\<lparr>className = ''Helper'', accessModifier = ''public '', classParameters = [],
             constructorParameters = None, publicMethods = None\<rparr>,
           \<lparr>className = ''Other'', accessModifier = ''final '', classParameters = [],
             constructorParameters = None, publicMethods = None\<rparr>])"
  using C1_public_class_selection
      [of "[\<lparr>className = ''Helper'', accessModifier = [], classParameters = [],
        constructorParameters = None, publicMethods = None\<rparr>,
      \<lparr>className = ''Main'', accessModifier = ''public '', classParameters = [],
        constructorParameters = None, publicMethods = None\<rparr>]"]
    C1_public_class_selection
      [of "[\<lparr>className = ''Helper'', accessModifier = [], classParameters = [],
        constructorParameters = None, publicMethods = None\<rparr>,
      \<lparr>className = ''Other'', accessModifier = ''final '', classParameters = [],
        constructorParameters = None, publicMethods = None\<rparr>]"]
  by (simp add: findOrSetPublicClass_def)

text \<open>
  Claim C2.  When the array of class descriptors is empty (or absent), the file is the
  package declaration, the imports and the default test class, which is named by the
  fallback test class name.  For fallback names that are plain text its only field is
  \<^verbatim>\<open>cut\<close> of the fallback class type, its setup method assigns \<^verbatim>\<open>new <class>()\<close> to that
  field, and its only test method is the placeholder \<^verbatim>\<open>shouldCompile\<close>.
\<close>

theorem C2_default_scaffold:
  assumes "javaClasses = None \<or> javaClasses = Some []"
  shows "generateTestClassFileContent javaClasses javaClassName testFileUri testClassName =
      Inr (generateTestClassPackageDeclaration testFileUri testClassName
        @ createDefaultImports @ createDefaultTestClass javaClassName testClassName)
    \<and> startsWith (createDefaultTestClass javaClassName testClassName)
        ([NL] @ ''public class '' @ testClassName @ '' {'')
    \<and> (plainText javaClassName \<and> plainText testClassName \<longrightarrow>
        fieldDeclarations (createDefaultTestClass javaClassName testClassName) =
          [javaClassName @ '' cut'']
      \<and> setupStatements (createDefaultTestClass javaClassName testClassName) =
          [''this.cut = new '' @ javaClassName @ ''()'']
      \<and> testMethodTexts (createDefaultTestClass javaClassName testClassName) =
          [''shouldCompile() {'' @ [NL, TAB, TAB] @ ''assertThat('' @ [DQ]
             @ ''Actual value'' @ [DQ] @ '', is('' @ [DQ] @ ''Expected value'' @ [DQ]
             @ ''));'' @ [NL, TAB]])"
proof -
  have gen: "generateTestClassFileContent javaClasses javaClassName testFileUri testClassName =
      Inr (generateTestClassPackageDeclaration testFileUri testClassName
        @ createDefaultImports @ createDefaultTestClass javaClassName testClassName)"
    using assms
    by (auto simp: generateTestClassFileContent_def Let_def Buffer_from_utf8_def)
  have "createDefaultTestClass javaClassName testClassName =
      ([NL] @ ''public class '' @ testClassName @ '' {'')
        @ drop (length ([NL] @ ''public class '' @ testClassName @ '' {''))
            (createDefaultTestClass javaClassName testClassName)"
    by (simp add: createDefaultTestClass_def)
  then have start: "startsWith (createDefaultTestClass javaClassName testClassName)
        ([NL] @ ''public class '' @ testClassName @ '' {'')"
    using startsWith_append by metis
  show ?thesis
    using gen start observers_createDefaultTestClass [of javaClassName testClassName]
    by (simp add: defaultTestMethodText_def)
qed

text \<open>
  The statement of C2 at the fallback names \<^verbatim>\<open>Foo\<close> and \<^verbatim>\<open>FooTest\<close>, for a test file at
  the root of the test tree.
\<close>

theorem C2_default_scaffold_witness:
  "generateTestClassFileContent (Some []) ''Foo''
      \<lparr>path = ''/p/src/test/java/FooTest.java'', fsPath = ''/p/src/test/java/FooTest.java''\<rparr>
      ''FooTest'' =
     Inr (createDefaultImports @ createDefaultTestClass ''Foo'' ''FooTest'')
   \<and> plainText ''Foo'' \<and> plainText ''FooTest''
   \<and> fieldDeclarations (createDefaultTestClass ''Foo'' ''FooTest'') = [''Foo cut'']
   \<and> setupStatements (createDefaultTestClass ''Foo'' ''FooTest'') = [''this.cut = new Foo()'']
   \<and> length (testMethodTexts (createDefaultTestClass ''Foo'' ''FooTest'')) = 1"
proof -
  have pkg: "generateTestClassPackageDeclaration
      \<lparr>path = ''/p/src/test/java/FooTest.java'', fsPath = ''/p/src/test/java/FooTest.java''\<rparr>
      ''FooTest'' = []"
    by code_simp
  have plain: "plainText ''Foo''" "plainText ''FooTest''"
    by (simp_all add: plainText_def)
  show ?thesis
    using C2_default_scaffold [of "Some []" "''Foo''"
        "\<lparr>path = ''/p/src/test/java/FooTest.java'',
          fsPath = ''/p/src/test/java/FooTest.java''\<rparr>" "''FooTest''"] pkg plain
    by simp
qed








text \<open>
  Claim C6.  The claim is that a location whose path lacks the marker \<^verbatim>\<open>/src/test/java\<close>
  has the empty package name.  For the test file
  \<^verbatim>\<open>/workspace/app/test/com/acme/FooTest.java\<close> the marker is not found, \<^verbatim>\<open>indexOf\<close> is
  \<open>-1\<close>, the start index is 14, and the package name is the text of the path from index
  14 to the file name, \<^verbatim>\<open>.test.com.acme\<close>; the file starts with a package declaration.
\<close>

theorem C6_package_of_path_without_marker:
  "indexOf ''/workspace/app/test/com/acme/FooTest.java'' ''/src/test/java'' = - 1
   \<and> createPackageNameFromUri
        \<lparr>path = ''/workspace/app/test/com/acme/FooTest.java'',
         fsPath = ''/workspace/app/test/com/acme/FooTest.java''\<rparr>
        (Some ''FooTest'') True = ''.test.com.acme''
   \<and> generateTestClassPackageDeclaration
        \<lparr>path = ''/workspace/app/test/com/acme/FooTest.java'',
         fsPath = ''/workspace/app/test/com/acme/FooTest.java''\<rparr>
        ''FooTest'' = ''package .test.com.acme;''"
  by code_simp

text \<open>
  Claim C7.  For a class descriptor whose sequence of public methods is empty or absent,
  the generated class ends with the default test method: \<^verbatim>\<open>shouldCompile\<close> under \<^verbatim>\<open>@Test\<close>,
  whose body is the assertion of \<^verbatim>\<open>"Actual value"\<close> against \<^verbatim>\<open>"Expected value"\<close>.  When the
  descriptor is plain text, this is the only test method read back from the generated
  class.
\<close>

theorem C7_default_test_method:
  assumes "publicMethods c = None \<or> publicMethods c = Some []"
  shows "(\<exists>before. createTestClass c =
            before @ [TAB] @ ''@Test'' @ [NL, TAB] @ ''public void shouldCompile() {''
              @ [NL, TAB, TAB] @ ''assertThat('' @ [DQ] @ ''Actual value'' @ [DQ]
              @ '', is('' @ [DQ] @ ''Expected value'' @ [DQ] @ ''));'' @ [NL, TAB] @ ''}''
              @ [NL] @ ''}'' @ [NL])
       \<and> (plainClass c \<longrightarrow>
            testMethodNames (createTestClass c) = [''shouldCompile'']
          \<and> testMethodTexts (createTestClass c) =
              [''shouldCompile() {'' @ [NL, TAB, TAB] @ ''assertThat('' @ [DQ]
                 @ ''Actual value'' @ [DQ] @ '', is('' @ [DQ] @ ''Expected value'' @ [DQ]
                 @ ''));'' @ [NL, TAB]])"
proof -
  from assms have e: "listOrEmpty (publicMethods c) = []"
    by (auto simp: listOrEmpty_def)
  have "createTestClass c =
      (classHeaderText c
       @ concat (map mockFieldText (listOrEmpty (constructorParameters c)))
       @ setupText c (constructorArguments (listOrEmpty (constructorParameters c))))
       @ [TAB] @ ''@Test'' @ [NL, TAB] @ ''public void shouldCompile() {''
              @ [NL, TAB, TAB] @ ''assertThat('' @ [DQ] @ ''Actual value'' @ [DQ]
              @ '', is('' @ [DQ] @ ''Expected value'' @ [DQ] @ ''));'' @ [NL, TAB] @ ''}''
              @ [NL] @ ''}'' @ [NL]"
    by (simp add: createTestClass_closed [of c] testsText_def e defaultTestMethodText_def)
  then have 1: "\<exists>before. createTestClass c =
            before @ [TAB] @ ''@Test'' @ [NL, TAB] @ ''public void shouldCompile() {''
              @ [NL, TAB, TAB] @ ''assertThat('' @ [DQ] @ ''Actual value'' @ [DQ]
              @ '', is('' @ [DQ] @ ''Expected value'' @ [DQ] @ ''));'' @ [NL, TAB] @ ''}''
              @ [NL] @ ''}'' @ [NL]"
    by blast
  have 2: "testMethodNames (createTestClass c) = [''shouldCompile'']
          \<and> testMethodTexts (createTestClass c) =
              [''shouldCompile() {'' @ [NL, TAB, TAB] @ ''assertThat('' @ [DQ]
                 @ ''Actual value'' @ [DQ] @ '', is('' @ [DQ] @ ''Expected value'' @ [DQ]
                 @ ''));'' @ [NL, TAB]]" if p: "plainClass c"
    using testMethods_createTestClass [OF p, of "CHR ''(''"]
      testMethods_createTestClass [OF p, of "CHR ''}''"] e
    by (simp add: testMethodNames_def testMethodTexts_def defaultTestMethodText_def)
  show ?thesis using 1 2 by blast
qed

text \<open>
  The statement of C7 at the helper class.
\<close>

theorem C7_default_test_method_witness:
  "plainClass helperClass \<and> publicMethods helperClass = Some []
   \<and> testMethodNames (createTestClass helperClass) = [''shouldCompile'']
   \<and> length (testMethodTexts (createTestClass helperClass)) = 1"
  using C7_default_test_method [of helperClass, THEN conjunct2] plainClass_helperClass
  by (simp add: helperClass_def)

text \<open>
  Claim C8.  The test method written for a public method is: its header, the declarations
  of the arguments, the call of the method on the instance field, and the comment
  \<^verbatim>\<open>// TODO: assert scenario\<close>.  The call is assigned to \<^verbatim>\<open>actualValue\<close>, declared with the
  method's return type, when the return type is not \<^verbatim>\<open>void\<close>; when it is \<^verbatim>\<open>void\<close>, the call
  stands alone after the two tabs.  When the descriptor is plain text, the test method read
  back at index \<open>i\<close> is the one of the public method at index \<open>i\<close>, with the argument
  names separated by a comma and a space.
\<close>

theorem C8_result_capture:
  assumes "publicMethods c = Some ms" "ms \<noteq> []"
  shows "(\<exists>before. createTestClass c =
            before
            @ concat (map (\<lambda>m. [NL, TAB] @ ''@Test'' @ [NL, TAB] @ ''public void should''
                @ capitalizeFirstLetter (mname m) @ ''() {'' @ [NL]
                @ argumentDeclarations (parameters m)
                @ (if returnType m = ''void'' then [TAB, TAB]
                   else [TAB, TAB] @ returnType m @ '' actualValue = '')
                @ lowercaseFirstLetter (className c) @ ''.'' @ mname m @ ''(''
                @ methodArguments (listOrEmpty (parameters m)) @ '');''
                @ [NL, NL, TAB, TAB] @ ''// TODO: assert scenario'' @ [NL, TAB] @ ''}''
                @ [NL]) ms)
            @ ''}'' @ [NL])
       \<and> (plainClass c \<longrightarrow>
            length (testMethodTexts (createTestClass c)) = length ms
          \<and> (\<forall>i. i < length ms \<longrightarrow>
               testMethodTexts (createTestClass c) ! i =
                 ''should'' @ capitalizeFirstLetter (mname (ms ! i)) @ ''() {'' @ [NL]
                   @ argumentDeclarations (parameters (ms ! i))
                   @ (if returnType (ms ! i) = ''void'' then [TAB, TAB]
                      else [TAB, TAB] @ returnType (ms ! i) @ '' actualValue = '')
                   @ lowercaseFirstLetter (className c) @ ''.'' @ mname (ms ! i) @ ''(''
                   @ joinWith '', '' (map name (listOrEmpty (parameters (ms ! i)))) @ '');''
                   @ [NL, NL, TAB, TAB] @ ''// TODO: assert scenario'' @ [NL, TAB]))"
proof (intro conjI impI allI)
  obtain before where b: "createTestClass c =
      before @ concat (map (\<lambda>m. [NL, TAB] @ ''@Test'' @ [NL, TAB] @ ''public void ''
        @ testMethodText (lowercaseFirstLetter (className c)) m @ ''}'' @ [NL]) ms)
      @ ''}'' @ [NL]"
    using createTestClass_methods [OF assms] by blast
  have "map (\<lambda>m. [NL, TAB] @ ''@Test'' @ [NL, TAB] @ ''public void ''
        @ testMethodText (lowercaseFirstLetter (className c)) m @ ''}'' @ [NL]) ms =
      map (\<lambda>m. [NL, TAB] @ ''@Test'' @ [NL, TAB] @ ''public void should''
                @ capitalizeFirstLetter (mname m) @ ''() {'' @ [NL]
                @ argumentDeclarations (parameters m)
                @ (if returnType m = ''void'' then [TAB, TAB]
                   else [TAB, TAB] @ returnType m @ '' actualValue = '')
                @ lowercaseFirstLetter (className c) @ ''.'' @ mname m @ ''(''
                @ methodArguments (listOrEmpty (parameters m)) @ '');''
                @ [NL, NL, TAB, TAB] @ ''// TODO: assert scenario'' @ [NL, TAB] @ ''}''
                @ [NL]) ms"
    by (simp add: testMethodText_def)
  with b have "createTestClass c =
            before
            @ concat (map (\<lambda>m. [NL, TAB] @ ''@Test'' @ [NL, TAB] @ ''public void should''
                @ capitalizeFirstLetter (mname m) @ ''() {'' @ [NL]
                @ argumentDeclarations (parameters m)
                @ (if returnType m = ''void'' then [TAB, TAB]
                   else [TAB, TAB] @ returnType m @ '' actualValue = '')
                @ lowercaseFirstLetter (className c) @ ''.'' @ mname m @ ''(''
                @ methodArguments (listOrEmpty (parameters m)) @ '');''
                @ [NL, NL, TAB, TAB] @ ''// TODO: assert scenario'' @ [NL, TAB] @ ''}''
                @ [NL]) ms)
            @ ''}'' @ [NL]"
    by (simp only:)
  then show "\<exists>before. createTestClass c =
            before
            @ concat (map (\<lambda>m. [NL, TAB] @ ''@Test'' @ [NL, TAB] @ ''public void should''
                @ capitalizeFirstLetter (mname m) @ ''() {'' @ [NL]
                @ argumentDeclarations (parameters m)
                @ (if returnType m = ''void'' then [TAB, TAB]
                   else [TAB, TAB] @ returnType m @ '' actualValue = '')
                @ lowercaseFirstLetter (className c) @ ''.'' @ mname m @ ''(''
                @ methodArguments (listOrEmpty (parameters m)) @ '');''
                @ [NL, NL, TAB, TAB] @ ''// TODO: assert scenario'' @ [NL, TAB] @ ''}''
                @ [NL]) ms)
            @ ''}'' @ [NL]"
    by blast
next
  assume p: "plainClass c"
  then have t: "testMethodTexts (createTestClass c) =
      map (testMethodText (lowercaseFirstLetter (className c))) ms"
    using testMethods_createTestClass [OF p, of "CHR ''}''"] assms
    by (simp add: testMethodTexts_def listOrEmpty_def)
  show "length (testMethodTexts (createTestClass c)) = length ms"
    by (simp add: t)
  fix i assume i: "i < length ms"
  from p assms have "list_all plainMethod ms"
    by (simp add: plainClass_def listOrEmpty_def)
  then have "list_all (\<lambda>p. name p \<noteq> []) (listOrEmpty (parameters (ms ! i)))"
    using i plainMethod_names [of ms] by (simp add: list_all_length)
  then have "methodArguments (listOrEmpty (parameters (ms ! i))) =
      joinWith '', '' (map name (listOrEmpty (parameters (ms ! i))))"
    by (rule methodArguments_joinWith)
  then show "testMethodTexts (createTestClass c) ! i =
                 ''should'' @ capitalizeFirstLetter (mname (ms ! i)) @ ''() {'' @ [NL]
                   @ argumentDeclarations (parameters (ms ! i))
                   @ (if returnType (ms ! i) = ''void'' then [TAB, TAB]
                      else [TAB, TAB] @ returnType (ms ! i) @ '' actualValue = '')
                   @ lowercaseFirstLetter (className c) @ ''.'' @ mname (ms ! i) @ ''(''
                   @ joinWith '', '' (map name (listOrEmpty (parameters (ms ! i)))) @ '');''
                   @ [NL, NL, TAB, TAB] @ ''// TODO: assert scenario'' @ [NL, TAB]"
    using i by (simp add: t testMethodText_def)
qed

text \<open>
  The statement of C8 at the two methods of the calculator class: \<^verbatim>\<open>add\<close> returns
  \<^verbatim>\<open>int\<close>, \<^verbatim>\<open>reset\<close> returns \<^verbatim>\<open>void\<close>.
\<close>

theorem C8_result_capture_witness:
  "plainClass calculatorClass
   \<and> testMethodTexts (createTestClass calculatorClass) ! 0 =
       ''shouldAdd() {'' @ [NL, TAB, TAB] @ ''// TODO: initialize args'' @ [NL, TAB, TAB]
         @ ''int a;'' @ [NL, TAB, TAB] @ ''int b;'' @ [NL, NL, TAB, TAB]
         @ ''int actualValue = calculator.add(a, b);'' @ [NL, NL, TAB, TAB]
         @ ''// TODO: assert scenario'' @ [NL, TAB]
   \<and> testMethodTexts (createTestClass calculatorClass) ! 1 =
       ''shouldReset() {'' @ [NL, TAB, TAB] @ ''calculator.reset();'' @ [NL, NL, TAB, TAB]
         @ ''// TODO: assert scenario'' @ [NL, TAB]"
proof -
  note w = C8_result_capture [of calculatorClass
      "[\<lparr>mname = ''add'', returnType = ''int'',
          parameters = Some [\<lparr>type = ''int'', name = ''a''\<rparr>, \<lparr>type = ''int'', name = ''b''\<rparr>]\<rparr>,
         \<lparr>mname = ''reset'', returnType = ''void'', parameters = Some []\<rparr>]",
      THEN conjunct2, rule_format, THEN conjunct2, rule_format]
  show ?thesis
    using w [of 0] w [of 1] plainClass_calculatorClass
    by (simp add: calculatorClass_def case_simps argumentDeclarations_def listOrEmpty_def)
qed




text \<open>
  Claim C10.  \<open>generateEmptyClassContent\<close> returns the class body
  \<^verbatim>\<open>public class <className> {\<close>, a line holding a tab, and the closing brace; before it
  stands the line \<^verbatim>\<open>package <packageName>;\<close> with a blank line, exactly when the package
  name is not empty.
\<close>

theorem C10_empty_class_content:
  "generateEmptyClassContent packageName cn =
     (if packageName = [] then [] else ''package '' @ packageName @ '';'' @ [NL, NL])
       @ ''public class '' @ cn @ '' {'' @ [NL, TAB, NL] @ ''}''
   \<and> (startsWith (generateEmptyClassContent packageName cn)
          (''package '' @ packageName @ '';'' @ [NL, NL]) \<longleftrightarrow> packageName \<noteq> [])"
proof (cases "packageName = []")
  case True
  then show ?thesis
    by (simp add: generateEmptyClassContent_def Buffer_from_utf8_def)
next
  case False
  have "startsWith ((''package '' @ packageName @ '';'' @ [NL, NL])
      @ ''public class '' @ cn @ '' {'' @ [NL, TAB, NL] @ ''}'')
      (''package '' @ packageName @ '';'' @ [NL, NL])"
    by (rule startsWith_append)
  with False show ?thesis
    by (simp add: generateEmptyClassContent_def Buffer_from_utf8_def)
qed

text \<open>The statement of C10 at the package \<^verbatim>\<open>com.acme\<close> and at the empty package name.\<close>

theorem C10_empty_class_content_witness:
  "generateEmptyClassContent ''com.acme'' ''Foo'' =
     ''package com.acme;'' @ [NL, NL] @ ''public class Foo {'' @ [NL, TAB, NL] @ ''}''
   \<and> generateEmptyClassContent [] ''Foo'' = ''public class Foo {'' @ [NL, TAB, NL] @ ''}''"
  using C10_empty_class_content [of "''com.acme''" "''Foo''"]
    C10_empty_class_content [of "[]" "''Foo''"]
  by simp

end
